theory Spec2Isabelle
  imports Main "HOL-Library.Word"
begin

unbundle bit_operations_syntax

section \<open>The frequency meter of main.c (PIC12F675, PWM read-out)\<close>

subsection \<open>Registers and globals\<close>

text \<open>
  The machine state holds the three globals of main.c (\<open>freq\<close>, \<open>pwm_dc\<close>, \<open>freq_cnt\<close>,
  lines 69 to 71) and the special function registers the program touches.
\<close>

text \<open>Modelled from the spec: the declarations of the special function registers, which
  come from the device header behind config.h and gpio.h and are not among the sources.
  The spec has a 16-bit hardware pulse counter (TMR1; main.c, line 109: "tmr1 is 16bit")
  and compares an 8-bit duty-cycle register with a free-running hardware counter (TMR0,
  8 bits wide on the PIC12F675; main.c, line 63, counts 256 steps per interrupt). The
  ports GPIO and TRISIO are 8 bits wide, the interrupt flags and the control bits are
  single bits; \<open>PS\<close> stands for (PS2, PS1, PS0) and \<open>T1CKPS\<close> for (T1CKPS1, T1CKPS0).\<close>

type_synonym uint8_t = "8 word"
type_synonym uint16_t = "16 word"
type_synonym uint32_t = "32 word"

record mcu =
  freq :: uint32_t
  pwm_dc :: uint8_t
  freq_cnt :: uint8_t
  GPIO :: uint8_t
  TRISIO :: uint8_t
  TMR0 :: uint8_t
  TMR1 :: uint16_t
  T0IF :: bool
  TMR1IF :: bool
  T0IE :: bool
  TMR1IE :: bool
  PEIE :: bool
  TMR1ON :: bool
  T0CS :: bool
  PSA :: bool
  PS :: "bool \<times> bool \<times> bool"
  TMR1GE :: bool
  T1CKPS :: "bool \<times> bool"
  T1OSCEN :: bool
  nT1SYNC :: bool
  TMR1CS :: bool

subsection \<open>Configuration constants\<close>

definition PWM_PIN :: uint8_t where
  "PWM_PIN = push_bit 0 1"

definition LED_PIN :: uint8_t where
  "LED_PIN = push_bit 1 1"

text \<open>\<open>FREQ_CNT\<close> is the literal 200; it is used at 8 bits (the downcounter) and at
  32 bits (the scaling arithmetic, where the \<open>ul\<close> operands widen it).\<close>

definition FREQ_CNT :: "'a::len word" where
  "FREQ_CNT = 200"

definition FREQ_HIGH :: uint32_t where
  "FREQ_HIGH = 20"

text \<open>Modelled from the spec: the pin macros \<open>IO_SET\<close>, \<open>IO_CLR\<close> and \<open>IO_OUT\<close> of gpio.h,
  which is not among the sources. The spec says that the indicator and the output pin are
  "driven high" and "driven low"; \<open>IO_SET\<close> raises the pins of the mask in the port
  register, \<open>IO_CLR\<close> lowers them, and \<open>IO_OUT\<close> clears their direction bits (output).\<close>

definition IO_SET :: "uint8_t \<Rightarrow> uint8_t \<Rightarrow> uint8_t" where
  "IO_SET port pins = port OR pins"

definition IO_CLR :: "uint8_t \<Rightarrow> uint8_t \<Rightarrow> uint8_t" where
  "IO_CLR port pins = port AND NOT pins"

definition IO_OUT :: "uint8_t \<Rightarrow> uint8_t \<Rightarrow> uint8_t" where
  "IO_OUT ddr pins = ddr AND NOT pins"

subsection \<open>The interrupt service routine\<close>

text \<open>Lines 94 to 102: the count latched at gate closure is converted to a duty cycle.
  The quotient is a 32-bit value; the assignment to the 8-bit \<open>pwm_dc\<close> keeps its low
  eight bits.\<close>

definition convert :: "uint32_t \<Rightarrow> mcu \<Rightarrow> mcu" where
  "convert freq10 s =
     (if freq10 \<ge> 256 * FREQ_CNT * FREQ_HIGH div 10
      then (let s1 = s\<lparr>pwm_dc := ucast (freq10 div (FREQ_CNT * (FREQ_HIGH div 1)))\<rparr>
            in s1\<lparr>GPIO := IO_SET (GPIO s1) LED_PIN\<rparr>)
      else (let s1 = s\<lparr>pwm_dc := ucast (freq10 div (FREQ_CNT * (FREQ_HIGH div 10)))\<rparr>
            in s1\<lparr>GPIO := IO_CLR (GPIO s1) LED_PIN\<rparr>))"

text \<open>Lines 82 to 87: the latch. It returns the value of the local \<open>freq10\<close> together
  with the state in which the accumulator, TMR1 and the downcounter are reset.\<close>

definition latch :: "mcu \<Rightarrow> uint32_t \<times> mcu" where
  "latch s =
     (let s1 = s\<lparr>freq := freq s OR ucast (TMR1 s)\<rparr>;
          s2 = s1\<lparr>TMR1 := 0\<rparr>;
          freq10 = freq s2;
          s3 = s2\<lparr>freq := 0\<rparr>;
          s4 = s3\<lparr>freq_cnt := FREQ_CNT\<rparr>
      in (freq10, s4))"

text \<open>Lines 78 to 104: the timer 0 part of the handler.\<close>

definition isr_tmr0 :: "mcu \<Rightarrow> mcu" where
  "isr_tmr0 s =
     (if T0IF s then
        (let s1 = s\<lparr>T0IF := False\<rparr>;
             s2 = s1\<lparr>freq_cnt := freq_cnt s1 - 1\<rparr>
         in if freq_cnt s2 = 0
            then (case latch s2 of (freq10, s3) \<Rightarrow> convert freq10 s3)
            else s2)
      else s)"

text \<open>Lines 107 to 110: the timer 1 part of the handler.\<close>

definition isr_tmr1 :: "mcu \<Rightarrow> mcu" where
  "isr_tmr1 s =
     (if TMR1IF s then
        (let s1 = s\<lparr>TMR1IF := False\<rparr>
         in s1\<lparr>freq := freq s1 + 0x10000\<rparr>)
      else s)"

definition isr :: "mcu \<Rightarrow> mcu" where
  "isr s = isr_tmr1 (isr_tmr0 s)"

subsection \<open>Initialisation and the output loop\<close>

text \<open>Lines 115 to 154.\<close>

definition freq_init :: "mcu \<Rightarrow> mcu" where
  "freq_init s =
     (let s = s\<lparr>pwm_dc := 0\<rparr>;
          s = s\<lparr>freq_cnt := FREQ_CNT\<rparr>;
          s = s\<lparr>TRISIO := IO_OUT (TRISIO s) LED_PIN\<rparr>;
          s = s\<lparr>GPIO := IO_CLR (GPIO s) PWM_PIN\<rparr>;
          s = s\<lparr>TRISIO := IO_OUT (TRISIO s) PWM_PIN\<rparr>;
          s = s\<lparr>T0CS := False\<rparr>;
          s = s\<lparr>PSA := False\<rparr>;
          s = s\<lparr>PS := (False, True, False)\<rparr>;
          s = s\<lparr>TMR0 := 0\<rparr>;
          s = s\<lparr>T0IF := False\<rparr>;
          s = s\<lparr>T0IE := True\<rparr>;
          s = s\<lparr>TMR1ON := False\<rparr>;
          s = s\<lparr>TMR1GE := False\<rparr>;
          s = s\<lparr>T1CKPS := (True, True)\<rparr>;
          s = s\<lparr>T1OSCEN := False\<rparr>;
          s = s\<lparr>nT1SYNC := True\<rparr>;
          s = s\<lparr>TMR1CS := True\<rparr>;
          s = s\<lparr>TMR1 := 0\<rparr>;
          s = s\<lparr>TMR1IF := False\<rparr>;
          s = s\<lparr>TMR1IE := True\<rparr>;
          s = s\<lparr>PEIE := True\<rparr>
      in s\<lparr>TMR1ON := True\<rparr>)"

text \<open>Lines 164 and 165: one iteration of the endless loop of \<open>main\<close>. \<open>PWM_CNT\<close> is
  TMR0.\<close>

definition pwm_out :: "mcu \<Rightarrow> mcu" where
  "pwm_out s =
     (if TMR0 s > pwm_dc s
      then s\<lparr>GPIO := IO_CLR (GPIO s) PWM_PIN\<rparr>
      else s\<lparr>GPIO := IO_SET (GPIO s) PWM_PIN\<rparr>)"

subsection \<open>Runs of the program\<close>

text \<open>
  \<open>window n s\<close>: \<open>s\<close> is a state of a run of the program in which the overflow part of the
  handler has fired \<open>n\<close> times since the last gate closure (or since initialisation, in
  the first gate window). A run starts after \<open>freq_init\<close>, from a state in which \<open>freq\<close>
  still holds the zero that C gives an object of static storage (\<open>freq_init\<close> does not
  write it). Between the program's own steps the hardware counts: it changes TMR0 and
  TMR1 and raises interrupt flags, which only the handler clears. The two parts of the
  handler are separate steps, each taken when its flag is set.
\<close>

inductive window :: "nat \<Rightarrow> mcu \<Rightarrow> bool" where
  start: "freq s = 0 \<Longrightarrow> window 0 (freq_init s)"
| hardware: "window n s \<Longrightarrow>
     window n (s\<lparr>TMR0 := t0, TMR1 := t1, T0IF := T0IF s \<or> f0, TMR1IF := TMR1IF s \<or> f1\<rparr>)"
| pwm: "window n s \<Longrightarrow> window n (pwm_out s)"
| tick: "window n s \<Longrightarrow> T0IF s \<Longrightarrow> freq_cnt s \<noteq> 1 \<Longrightarrow> window n (isr_tmr0 s)"
| closure: "window n s \<Longrightarrow> T0IF s \<Longrightarrow> freq_cnt s = 1 \<Longrightarrow> window 0 (isr_tmr0 s)"
| overflow: "window n s \<Longrightarrow> TMR1IF s \<Longrightarrow> window (Suc n) (isr_tmr1 s)"

subsection \<open>Example states\<close>

definition zeroed :: mcu where
  "zeroed = \<lparr>freq = 0, pwm_dc = 0, freq_cnt = 0, GPIO = 0, TRISIO = 0, TMR0 = 0, TMR1 = 0,
     T0IF = False, TMR1IF = False, T0IE = False, TMR1IE = False, PEIE = False,
     TMR1ON = False, T0CS = False, PSA = False, PS = (False, False, False),
     TMR1GE = False, T1CKPS = (False, False), T1OSCEN = False, nT1SYNC = False,
     TMR1CS = False\<rparr>"

text \<open>\<open>closing hi lo\<close>: the timer 0 flag is raised and the downcounter stands at 1, so the
  handler closes the gate; the accumulator holds \<open>hi\<close> and TMR1 holds \<open>lo\<close>.\<close>

definition closing :: "uint32_t \<Rightarrow> uint16_t \<Rightarrow> mcu" where
  "closing hi lo = zeroed\<lparr>freq := hi, TMR1 := lo, T0IF := True, freq_cnt := 1\<rparr>"

text \<open>\<open>overflowed n r\<close>: the state after initialisation from \<open>zeroed\<close>, \<open>n\<close> firings of
  the overflow part of the handler and no timer tick, with TMR1 standing at \<open>r\<close>.\<close>

definition overflowed :: "nat \<Rightarrow> uint16_t \<Rightarrow> mcu" where
  "overflowed n r = (freq_init zeroed)\<lparr>freq := word_of_nat n * 0x10000, TMR1 := r\<rparr>"

text \<open>\<open>gate_end n r\<close>: the state after initialisation from \<open>zeroed\<close>, \<open>n\<close> firings of the
  overflow part of the handler and 199 timer ticks, when the hardware has raised the
  timer 0 flag for the 200th tick and TMR1 stands at \<open>r\<close>.\<close>

definition gate_end :: "nat \<Rightarrow> uint16_t \<Rightarrow> mcu" where
  "gate_end n r = (freq_init zeroed)\<lparr>freq := word_of_nat n * 0x10000, TMR1 := r,
     freq_cnt := 1, T0IF := True\<rparr>"

text \<open>\<open>gate_end_pending n r\<close>: as \<open>gate_end n r\<close>, when TMR1 has wrapped once more and the
  hardware has raised the timer 1 flag, which the handler has not yet serviced.\<close>

definition gate_end_pending :: "nat \<Rightarrow> uint16_t \<Rightarrow> mcu" where
  "gate_end_pending n r = (gate_end n r)\<lparr>TMR1IF := True\<rparr>"

section \<open>Auxiliary facts\<close>

lemma latch_count: "fst (latch s) = freq s OR ucast (TMR1 s)"
  by (simp add: latch_def Let_def)

lemma convert_pwm_dc:
  "pwm_dc (convert c s) =
     (if 102400 \<le> unat c then ucast (c div 4000) else ucast (c div 400))"
  by (simp add: convert_def FREQ_CNT_def FREQ_HIGH_def Let_def word_le_nat_alt)

lemma convert_led: "bit (GPIO (convert c s)) 1 = (102400 \<le> unat c)"
  by (simp add: convert_def FREQ_CNT_def FREQ_HIGH_def Let_def word_le_nat_alt
      IO_SET_def IO_CLR_def LED_PIN_def bit_simps)

lemma isr_tmr0_closure:
  assumes "T0IF s" and "freq_cnt s = 1"
  shows "isr_tmr0 s =
     convert (fst (latch s)) (snd (latch (s\<lparr>T0IF := False, freq_cnt := 0\<rparr>)))"
  using assms by (simp add: isr_tmr0_def latch_def Let_def)

lemma isr_closure_pwm_dc:
  assumes "T0IF s" and "freq_cnt s = 1"
  shows "pwm_dc (isr s) =
     (if 102400 \<le> unat (fst (latch s)) then ucast (fst (latch s) div 4000)
      else ucast (fst (latch s) div 400))"
proof -
  obtain s' where "isr_tmr0 s = convert (fst (latch s)) s'"
    using isr_tmr0_closure [OF assms] by blast
  moreover have "pwm_dc (isr s) = pwm_dc (isr_tmr0 s)"
    by (simp add: isr_def isr_tmr1_def Let_def)
  ultimately show ?thesis
    by (simp only: convert_pwm_dc)
qed

lemma isr_closure_led:
  assumes "T0IF s" and "freq_cnt s = 1"
  shows "bit (GPIO (isr s)) 1 = (102400 \<le> unat (fst (latch s)))"
proof -
  obtain s' where "isr_tmr0 s = convert (fst (latch s)) s'"
    using isr_tmr0_closure [OF assms] by blast
  moreover have "GPIO (isr s) = GPIO (isr_tmr0 s)"
    by (simp add: isr_def isr_tmr1_def Let_def)
  ultimately show ?thesis
    by (simp only: convert_led)
qed

lemma unat_duty_high:
  "unat (ucast (c div 4000 :: uint32_t) :: uint8_t) = unat c div 4000 mod 256"
  by (simp add: unsigned_ucast_eq take_bit_eq_mod unat_div)

lemma unat_duty_low:
  "unat (ucast (c div 400 :: uint32_t) :: uint8_t) = unat c div 400 mod 256"
  by (simp add: unsigned_ucast_eq take_bit_eq_mod unat_div)

lemma closing_simps:
  "T0IF (closing hi lo)" "freq_cnt (closing hi lo) = 1"
  "fst (latch (closing hi lo)) = hi OR ucast lo"
  by (simp_all add: closing_def zeroed_def latch_count)

lemma isr_tmr0_closure_resets:
  assumes "T0IF s" and "freq_cnt s = 1"
  shows "freq (isr_tmr0 s) = 0" and "freq_cnt (isr_tmr0 s) = 200" and "TMR1 (isr_tmr0 s) = 0"
  using assms
  by (simp_all add: isr_tmr0_def latch_def convert_def Let_def FREQ_CNT_def)

lemma isr_tmr0_tick:
  assumes "T0IF s" and "freq_cnt s \<noteq> 1"
  shows "freq (isr_tmr0 s) = freq s" and "freq_cnt (isr_tmr0 s) = freq_cnt s - 1"
  using assms by (simp_all add: isr_tmr0_def Let_def)

lemma isr_tmr0_idle: "\<not> T0IF s \<Longrightarrow> isr_tmr0 s = s"
  by (simp add: isr_tmr0_def)

lemma isr_tmr1_overflow:
  assumes "TMR1IF s"
  shows "freq (isr_tmr1 s) = freq s + 0x10000" and "freq_cnt (isr_tmr1 s) = freq_cnt s"
  using assms by (simp_all add: isr_tmr1_def Let_def)

lemma freq_init_fields: "freq (freq_init s) = freq s" "freq_cnt (freq_init s) = 200"
  by (simp_all add: freq_init_def Let_def FREQ_CNT_def)

lemma pwm_out_fields: "freq (pwm_out s) = freq s" "freq_cnt (pwm_out s) = freq_cnt s"
  by (simp_all add: pwm_out_def)

lemma downcounter_step:
  fixes c :: uint8_t
  assumes "1 \<le> c" and "c \<le> 200" and "c \<noteq> 1"
  shows "1 \<le> c - 1 \<and> c - 1 \<le> 200"
proof -
  have "unat c \<noteq> 1"
    using assms(3) by (simp add: word_unat_eq_iff)
  moreover have "1 \<le> unat c" and "unat c \<le> 200"
    using assms(1,2) by (simp_all add: word_le_nat_alt)
  moreover have "unat (c - 1) = unat c - 1"
    using assms(1) by (simp add: unat_sub)
  ultimately have "1 \<le> unat (c - 1) \<and> unat (c - 1) \<le> 200"
    by arith
  then show ?thesis
    by (simp add: word_le_nat_alt)
qed

lemma window_freq_cnt: "window n s \<Longrightarrow> 1 \<le> freq_cnt s \<and> freq_cnt s \<le> 200"
proof (induction rule: window.induct)
  case (start s)
  show ?case by (simp add: freq_init_fields)
next
  case (hardware n s t0 t1 f0 f1)
  then show ?case by simp
next
  case (pwm n s)
  then show ?case by (simp add: pwm_out_fields)
next
  case (tick n s)
  then show ?case by (simp add: isr_tmr0_tick downcounter_step)
next
  case (closure n s)
  then show ?case by (simp add: isr_tmr0_closure_resets)
next
  case (overflow n s)
  then show ?case by (simp add: isr_tmr1_overflow)
qed

lemma window_freq: "window n s \<Longrightarrow> freq s = word_of_nat n * 0x10000"
proof (induction rule: window.induct)
  case (start s)
  then show ?case by (simp add: freq_init_fields)
next
  case (hardware n s t0 t1 f0 f1)
  then show ?case by simp
next
  case (pwm n s)
  then show ?case by (simp add: pwm_out_fields)
next
  case (tick n s)
  then show ?case by (simp add: isr_tmr0_tick)
next
  case (closure n s)
  then show ?case by (simp add: isr_tmr0_closure_resets)
next
  case (overflow n s)
  then show ?case by (simp add: isr_tmr1_overflow algebra_simps)
qed

lemma low16_clear:
  fixes k :: uint32_t
  shows "take_bit 16 (k * 0x10000) = 0"
proof -
  have "k * 0x10000 = push_bit 16 k"
    by (simp add: push_bit_eq_mult)
  then show ?thesis
    by (simp add: take_bit_push_bit)
qed

lemma or_is_add:
  fixes x :: uint32_t and t :: uint16_t
  assumes "take_bit 16 x = 0"
  shows "x OR ucast t = x + ucast t"
proof -
  have "\<not> bit x i" if "i < 16" for i
  proof -
    have "bit (take_bit 16 x) i = bit x i"
      using that by (simp add: bit_take_bit_iff)
    then show ?thesis by (simp add: assms)
  qed
  then have "x AND ucast t = 0"
    by (auto simp add: bit_eq_iff bit_and_iff bit_ucast_iff dest: bit_imp_le_length)
  then show ?thesis
    by (simp add: disjunctive_add_eq_or)
qed

lemma low16_divides:
  fixes x :: uint32_t
  assumes "take_bit 16 x = 0"
  shows "unat x + 65536 \<le> 4294967296"
proof -
  define d where "d = unat x div 65536"
  have "unat (take_bit 16 x) = take_bit 16 (unat x)"
    by (rule unsigned_take_bit_eq)
  also have "\<dots> = unat x mod 2 ^ 16"
    by (rule take_bit_eq_mod)
  finally have "unat (take_bit 16 x) = unat x mod 2 ^ 16" .
  then have "unat x mod 65536 = 0"
    by (simp add: assms)
  then have x: "unat x = 65536 * d"
    unfolding d_def by (simp add: mod_eq_0_iff_dvd)
  have "unat x < 4294967296"
    using unsigned_less [of x, where ?'a = nat] by simp
  then have "d < 65536"
    unfolding d_def by (simp add: div_less_iff_less_mult)
  with x show ?thesis by simp
qed

lemma unat_or_is_add:
  fixes x :: uint32_t and t :: uint16_t
  assumes "take_bit 16 x = 0"
  shows "unat (x OR ucast t) = unat x + unat t"
proof -
  have bound: "unat t < 65536"
    using unsigned_less [of t, where ?'a = nat] by simp
  have "unat (ucast t :: uint32_t) = take_bit LENGTH(32) (unat t)"
    by (simp only: unsigned_ucast_eq)
  also have "\<dots> = unat t"
    using bound by (intro take_bit_nat_eq_self) simp
  finally have t: "unat (ucast t :: uint32_t) = unat t" .
  have "unat t < 65536"
    by (rule bound)
  then have "unat x + unat (ucast t :: uint32_t) < 2 ^ LENGTH(32)"
    using low16_divides [OF assms] t by simp
  then have "unat (x + ucast t) = unat x + unat (ucast t :: uint32_t)"
    by (simp only: unat_add_lem)
  then show ?thesis
    by (simp add: or_is_add [OF assms] t)
qed

lemma window_low16: "window n s \<Longrightarrow> take_bit 16 (freq s) = 0"
  by (simp add: window_freq low16_clear)

lemma window_overflowed_0: "window n (overflowed n 0)"
proof (induction n)
  case 0
  have "window 0 (freq_init zeroed)"
    by (rule window.start) (simp add: zeroed_def)
  moreover have "overflowed 0 0 = freq_init zeroed"
    by (simp add: overflowed_def freq_init_def zeroed_def Let_def)
  ultimately show ?case by simp
next
  case (Suc n)
  let ?s = "(overflowed n 0)\<lparr>TMR0 := 0, TMR1 := 0,
    T0IF := T0IF (overflowed n 0) \<or> False, TMR1IF := TMR1IF (overflowed n 0) \<or> True\<rparr>"
  have "window n ?s"
    by (rule window.hardware [OF Suc.IH])
  moreover have "TMR1IF ?s"
    by simp
  ultimately have "window (Suc n) (isr_tmr1 ?s)"
    by (rule window.overflow)
  moreover have "isr_tmr1 ?s = overflowed (Suc n) 0"
    by (simp add: isr_tmr1_def overflowed_def freq_init_def zeroed_def Let_def algebra_simps)
  ultimately show ?case by simp
qed

lemma window_overflowed: "window n (overflowed n r)"
proof -
  let ?s = "(overflowed n 0)\<lparr>TMR0 := 0, TMR1 := r,
    T0IF := T0IF (overflowed n 0) \<or> False, TMR1IF := TMR1IF (overflowed n 0) \<or> False\<rparr>"
  have "window n ?s"
    by (rule window.hardware [OF window_overflowed_0])
  moreover have "?s = overflowed n r"
    by (simp add: overflowed_def freq_init_def zeroed_def Let_def)
  ultimately show ?thesis by simp
qed

lemma overflowed_simps:
  "freq (overflowed n r) = word_of_nat n * 0x10000" "TMR1 (overflowed n r) = r"
  "freq_cnt (overflowed n r) = 200"
  by (simp_all add: overflowed_def freq_init_def zeroed_def Let_def FREQ_CNT_def)

lemma downcounter_not_last:
  assumes "k < 199"
  shows "200 - word_of_nat k \<noteq> (1 :: uint8_t)"
proof
  assume last: "200 - word_of_nat k = (1 :: uint8_t)"
  have "(word_of_nat k :: uint8_t) = 200 - (200 - word_of_nat k)"
    by simp
  also have "\<dots> = 200 - 1"
    by (simp only: last)
  finally have "(word_of_nat k :: uint8_t) = 199"
    by simp
  then have "unat (word_of_nat k :: uint8_t) = 199"
    by simp
  moreover have "unat (word_of_nat k :: uint8_t) = k"
    using assms by (simp add: unat_of_nat)
  ultimately show False
    using assms by simp
qed

lemma window_ticked:
  "k < 200 \<Longrightarrow> window n ((overflowed n 0)\<lparr>freq_cnt := 200 - word_of_nat k\<rparr>)"
proof (induction k)
  case 0
  have "(overflowed n 0)\<lparr>freq_cnt := 200 - word_of_nat 0\<rparr> = overflowed n 0"
    by (simp add: overflowed_def freq_init_def zeroed_def Let_def FREQ_CNT_def)
  then show ?case
    by (simp only: window_overflowed_0)
next
  case (Suc k)
  let ?s = "(overflowed n 0)\<lparr>freq_cnt := 200 - word_of_nat k\<rparr>"
  let ?h = "?s\<lparr>TMR0 := 0, TMR1 := 0, T0IF := T0IF ?s \<or> True, TMR1IF := TMR1IF ?s \<or> False\<rparr>"
  have k: "k < 199"
    using Suc.prems by simp
  have "window n ?s"
    using Suc k by simp
  then have "window n ?h"
    by (rule window.hardware)
  moreover have "T0IF ?h"
    by simp
  moreover have "freq_cnt ?h \<noteq> 1"
    using downcounter_not_last [OF k] by simp
  ultimately have "window n (isr_tmr0 ?h)"
    by (rule window.tick)
  moreover have "isr_tmr0 ?h = (overflowed n 0)\<lparr>freq_cnt := 200 - word_of_nat (Suc k)\<rparr>"
    using downcounter_not_last [OF k]
    by (simp add: isr_tmr0_def overflowed_def freq_init_def zeroed_def Let_def diff_eq_eq)
  ultimately show ?case by simp
qed

lemma window_gate_end: "window n (gate_end n r)"
proof -
  let ?s = "(overflowed n 0)\<lparr>freq_cnt := 200 - word_of_nat 199\<rparr>"
  let ?h = "?s\<lparr>TMR0 := 0, TMR1 := r, T0IF := T0IF ?s \<or> True, TMR1IF := TMR1IF ?s \<or> False\<rparr>"
  have "window n ?s"
    by (rule window_ticked) simp
  then have "window n ?h"
    by (rule window.hardware)
  moreover have "?h = gate_end n r"
    by (simp add: gate_end_def overflowed_def freq_init_def zeroed_def Let_def)
  ultimately show ?thesis by simp
qed

lemma gate_end_simps:
  "freq (gate_end n r) = word_of_nat n * 0x10000" "TMR1 (gate_end n r) = r"
  "freq_cnt (gate_end n r) = 1" "T0IF (gate_end n r)"
  by (simp_all add: gate_end_def)

lemma window_gate_end_pending: "window n (gate_end_pending n r)"
proof -
  let ?s = "gate_end n r"
  let ?h = "?s\<lparr>TMR0 := 0, TMR1 := r, T0IF := T0IF ?s \<or> False, TMR1IF := TMR1IF ?s \<or> True\<rparr>"
  have "window n ?h"
    by (rule window.hardware [OF window_gate_end])
  moreover have "?h = gate_end_pending n r"
    by (simp add: gate_end_pending_def gate_end_def freq_init_def zeroed_def Let_def)
  ultimately show ?thesis by simp
qed

lemma gate_end_pending_simps:
  "freq (gate_end_pending n r) = word_of_nat n * 0x10000" "TMR1 (gate_end_pending n r) = r"
  "freq_cnt (gate_end_pending n r) = 1" "T0IF (gate_end_pending n r)"
  "TMR1IF (gate_end_pending n r)"
  by (simp_all add: gate_end_pending_def gate_end_def)

lemma isr_closure_freq:
  assumes "T0IF s" and "freq_cnt s = 1"
  shows "freq (isr s) = (if TMR1IF s then 0x10000 else 0)"
proof -
  have "TMR1IF (isr_tmr0 s) = TMR1IF s"
    using assms by (simp add: isr_tmr0_def latch_def convert_def Let_def)
  then show ?thesis
    by (simp add: isr_def isr_tmr1_def Let_def isr_tmr0_closure_resets [OF assms])
qed

section \<open>The frequency classifier\<close>

text \<open>
  C2. When the gate closes, the count latched is the accumulator combined with TMR1;
  if this pulse count \<open>c\<close> is below the threshold 102400, the handler sets the
  duty-cycle register to \<open>c div 400\<close> and drives the range indicator (bit 1 of GPIO)
  low. For \<open>c = 0\<close> the duty is 0, in the low range.
\<close>

theorem low_range_duty:
  assumes "T0IF s" and "freq_cnt s = 1" and "unat (fst (latch s)) < 102400"
  shows "fst (latch s) = freq s OR ucast (TMR1 s)
         \<and> unat (pwm_dc (isr s)) = unat (fst (latch s)) div 400
         \<and> \<not> bit (GPIO (isr s)) 1"
proof -
  have small: "unat (fst (latch s)) div 400 < 256"
    using assms(3) by simp
  have "pwm_dc (isr s) = ucast (fst (latch s) div 400)"
    using assms(3) by (simp add: isr_closure_pwm_dc [OF assms(1,2)])
  then have duty: "unat (pwm_dc (isr s)) = unat (fst (latch s)) div 400"
    using small by (simp add: unat_duty_low)
  have "bit (GPIO (isr s)) 1 = (102400 \<le> unat (fst (latch s)))"
    by (rule isr_closure_led [OF assms(1,2)])
  then have "\<not> bit (GPIO (isr s)) 1"
    using assms(3) by simp
  with duty latch_count [of s] show ?thesis by simp
qed

theorem low_range_duty_witness:
  "T0IF ((closing 0x10000 0x1000)\<lparr>pwm_dc := 7, GPIO := 2\<rparr>)
   \<and> freq_cnt ((closing 0x10000 0x1000)\<lparr>pwm_dc := 7, GPIO := 2\<rparr>) = 1
   \<and> freq ((closing 0x10000 0x1000)\<lparr>pwm_dc := 7, GPIO := 2\<rparr>) = 0x10000
   \<and> TMR1 ((closing 0x10000 0x1000)\<lparr>pwm_dc := 7, GPIO := 2\<rparr>) = 0x1000
   \<and> bit (GPIO ((closing 0x10000 0x1000)\<lparr>pwm_dc := 7, GPIO := 2\<rparr>)) 1
   \<and> unat (fst (latch ((closing 0x10000 0x1000)\<lparr>pwm_dc := 7, GPIO := 2\<rparr>))) = 69632
   \<and> unat (pwm_dc (isr ((closing 0x10000 0x1000)\<lparr>pwm_dc := 7, GPIO := 2\<rparr>))) = 174
   \<and> \<not> bit (GPIO (isr ((closing 0x10000 0x1000)\<lparr>pwm_dc := 7, GPIO := 2\<rparr>))) 1
   \<and> pwm_dc ((closing 0 0)\<lparr>pwm_dc := 7, GPIO := 2\<rparr>) = 7
   \<and> unat (fst (latch ((closing 0 0)\<lparr>pwm_dc := 7, GPIO := 2\<rparr>))) = 0
   \<and> unat (pwm_dc (isr ((closing 0 0)\<lparr>pwm_dc := 7, GPIO := 2\<rparr>))) = 0
   \<and> \<not> bit (GPIO (isr ((closing 0 0)\<lparr>pwm_dc := 7, GPIO := 2\<rparr>))) 1"
  using low_range_duty [of "(closing 0x10000 0x1000)\<lparr>pwm_dc := 7, GPIO := 2\<rparr>"]
    low_range_duty [of "(closing 0 0)\<lparr>pwm_dc := 7, GPIO := 2\<rparr>"]
  by (simp add: closing_def zeroed_def latch_count)

text \<open>
  C3. A latched pulse count equal to the threshold 102400 is classified as high range:
  the range indicator is driven high, and the duty is the high-range quotient
  \<open>102400 div 4000 = 25\<close>.
\<close>

theorem threshold_is_high:
  assumes "T0IF s" and "freq_cnt s = 1" and "fst (latch s) = 102400"
  shows "bit (GPIO (isr s)) 1 \<and> pwm_dc (isr s) = 25"
proof -
  have "bit (GPIO (isr s)) 1 = (102400 \<le> unat (fst (latch s)))"
    by (rule isr_closure_led [OF assms(1,2)])
  then have led: "bit (GPIO (isr s)) 1"
    by (simp add: assms(3))
  have "pwm_dc (isr s) = 25"
    by (simp add: isr_closure_pwm_dc [OF assms(1,2)] assms(3))
  with led show ?thesis by simp
qed

theorem threshold_is_high_witness:
  "T0IF (closing 0x10000 0x9000) \<and> freq_cnt (closing 0x10000 0x9000) = 1
   \<and> fst (latch (closing 0x10000 0x9000)) = 102400
   \<and> bit (GPIO (isr (closing 0x10000 0x9000))) 1
   \<and> pwm_dc (isr (closing 0x10000 0x9000)) = 25"
  using threshold_is_high [of "closing 0x10000 0x9000"] by (simp add: closing_simps)

text \<open>
  C9. When the gate closes with a latched pulse count \<open>c\<close> whose high-range quotient
  \<open>c div 4000\<close> is 256 or more, nothing clamps it: the 8-bit duty-cycle register receives
  \<open>c div 4000\<close> reduced modulo \<open>2 ^ 8\<close>, and the range indicator is driven high.
\<close>

theorem over_range_duty_wraps:
  assumes "T0IF s" and "freq_cnt s = 1" and "256 \<le> unat (fst (latch s)) div 4000"
  shows "unat (pwm_dc (isr s)) = unat (fst (latch s)) div 4000 mod 2 ^ 8
         \<and> bit (GPIO (isr s)) 1"
proof -
  have high: "102400 \<le> unat (fst (latch s))"
    using assms(3) by simp
  have "pwm_dc (isr s) = ucast (fst (latch s) div 4000)"
    using high by (simp add: isr_closure_pwm_dc [OF assms(1,2)])
  then have duty: "unat (pwm_dc (isr s)) = unat (fst (latch s)) div 4000 mod 2 ^ 8"
    by (simp add: unat_duty_high)
  have "bit (GPIO (isr s)) 1 = (102400 \<le> unat (fst (latch s)))"
    by (rule isr_closure_led [OF assms(1,2)])
  then have "bit (GPIO (isr s)) 1"
    using high by simp
  with duty show ?thesis by simp
qed

theorem over_range_duty_wraps_witness:
  "T0IF (closing 0x1E0000 0x8480) \<and> freq_cnt (closing 0x1E0000 0x8480) = 1
   \<and> unat (fst (latch (closing 0x1E0000 0x8480))) = 2000000
   \<and> 256 \<le> unat (fst (latch (closing 0x1E0000 0x8480))) div 4000
   \<and> unat (pwm_dc (isr (closing 0x1E0000 0x8480))) = 244
   \<and> bit (GPIO (isr (closing 0x1E0000 0x8480))) 1"
  using over_range_duty_wraps [of "closing 0x1E0000 0x8480"] by (simp add: closing_simps)

text \<open>
  C1, as the code has it. When the gate closes with a latched pulse count \<open>c\<close> of at
  least 102400, the handler drives the range indicator high and sets the 8-bit
  duty-cycle register to \<open>c div 4000\<close> reduced modulo 256; the register holds
  \<open>c div 4000\<close> itself exactly when \<open>c < 1024000\<close>, that is, when the quotient fits the
  eight bits of the register.
\<close>

theorem high_range_duty:
  assumes "T0IF s" and "freq_cnt s = 1" and "102400 \<le> unat (fst (latch s))"
  shows "bit (GPIO (isr s)) 1
         \<and> unat (pwm_dc (isr s)) = unat (fst (latch s)) div 4000 mod 256
         \<and> (unat (pwm_dc (isr s)) = unat (fst (latch s)) div 4000
              \<longleftrightarrow> unat (fst (latch s)) < 1024000)"
proof -
  have "bit (GPIO (isr s)) 1 = (102400 \<le> unat (fst (latch s)))"
    by (rule isr_closure_led [OF assms(1,2)])
  then have led: "bit (GPIO (isr s)) 1"
    using assms(3) by simp
  have "pwm_dc (isr s) = ucast (fst (latch s) div 4000)"
    using assms(3) by (simp add: isr_closure_pwm_dc [OF assms(1,2)])
  then have duty: "unat (pwm_dc (isr s)) = unat (fst (latch s)) div 4000 mod 256"
    by (simp add: unat_duty_high)
  have "unat (fst (latch s)) div 4000 mod 256 < 256"
    by simp
  then have "(unat (fst (latch s)) div 4000 mod 256 = unat (fst (latch s)) div 4000)
          \<longleftrightarrow> unat (fst (latch s)) div 4000 < 256"
    by auto
  also have "\<dots> \<longleftrightarrow> unat (fst (latch s)) < 1024000"
    by (simp add: div_less_iff_less_mult)
  finally have "unat (pwm_dc (isr s)) = unat (fst (latch s)) div 4000
      \<longleftrightarrow> unat (fst (latch s)) < 1024000"
    by (simp only: duty)
  with led duty show ?thesis
    by (intro conjI)
qed

theorem high_range_duty_witness:
  "T0IF (closing 0x70000 0xA120) \<and> freq_cnt (closing 0x70000 0xA120) = 1
   \<and> unat (fst (latch (closing 0x70000 0xA120))) = 500000
   \<and> \<not> bit (GPIO (closing 0x70000 0xA120)) 1
   \<and> bit (GPIO (isr (closing 0x70000 0xA120))) 1
   \<and> unat (pwm_dc (isr (closing 0x70000 0xA120))) = 125
   \<and> T0IF (closing 0x1E0000 0x8480) \<and> freq_cnt (closing 0x1E0000 0x8480) = 1
   \<and> unat (fst (latch (closing 0x1E0000 0x8480))) = 2000000
   \<and> bit (GPIO (isr (closing 0x1E0000 0x8480))) 1
   \<and> unat (pwm_dc (isr (closing 0x1E0000 0x8480))) = 500 mod 256
   \<and> unat (pwm_dc (isr (closing 0x1E0000 0x8480))) = 244"
  using high_range_duty [of "closing 0x70000 0xA120"] high_range_duty [of "closing 0x1E0000 0x8480"]
  by (simp add: closing_simps) (simp add: closing_def zeroed_def)

text \<open>
  C1, as the claim states it, fails: at the latched count 3000000 the quotient
  \<open>3000000 div 4000\<close> is 750, and the register holds 238.
\<close>

theorem high_range_duty_counterexample:
  "T0IF (closing 0x2D0000 0xC6C0) \<and> freq_cnt (closing 0x2D0000 0xC6C0) = 1
   \<and> unat (fst (latch (closing 0x2D0000 0xC6C0))) = 3000000
   \<and> 102400 \<le> unat (fst (latch (closing 0x2D0000 0xC6C0)))
   \<and> unat (fst (latch (closing 0x2D0000 0xC6C0))) div 4000 = 750
   \<and> unat (pwm_dc (isr (closing 0x2D0000 0xC6C0))) = 238
   \<and> unat (pwm_dc (isr (closing 0x2D0000 0xC6C0)))
        \<noteq> unat (fst (latch (closing 0x2D0000 0xC6C0))) div 4000"
  by (simp add: closing_simps isr_closure_pwm_dc)

text \<open>
  C8, as the code has it. When the gate closes with the latched pulse count 1024000 of
  an input at exactly full scale, the handler drives the range indicator high and the
  duty-cycle register receives 0, the low eight bits of the quotient 256. The duty 255 is
  published for the counts from 1020000 to 1023999, just below full scale.
\<close>

theorem full_scale_duty:
  assumes "T0IF s" and "freq_cnt s = 1"
  shows "(fst (latch s) = 1024000 \<longrightarrow> bit (GPIO (isr s)) 1 \<and> pwm_dc (isr s) = 0)
         \<and> (1020000 \<le> unat (fst (latch s)) \<and> unat (fst (latch s)) < 1024000
              \<longrightarrow> bit (GPIO (isr s)) 1 \<and> pwm_dc (isr s) = 255)"
proof -
  have led: "bit (GPIO (isr s)) 1 = (102400 \<le> unat (fst (latch s)))"
    by (rule isr_closure_led [OF assms])
  have duty: "102400 \<le> unat (fst (latch s)) \<Longrightarrow>
      unat (pwm_dc (isr s)) = unat (fst (latch s)) div 4000 mod 256"
    by (simp add: isr_closure_pwm_dc [OF assms] unat_duty_high)
  have full: "bit (GPIO (isr s)) 1 \<and> pwm_dc (isr s) = 0" if "fst (latch s) = 1024000"
    using that led by (simp add: isr_closure_pwm_dc [OF assms])
  have near: "bit (GPIO (isr s)) 1 \<and> pwm_dc (isr s) = 255"
    if lo: "1020000 \<le> unat (fst (latch s))" and hi: "unat (fst (latch s)) < 1024000"
  proof -
    have "unat (fst (latch s)) div 4000 = 255"
      using lo hi by (intro div_nat_eqI) simp_all
    then have "unat (pwm_dc (isr s)) = 255"
      using duty lo by simp
    then have "pwm_dc (isr s) = 255"
      by (simp add: word_unat_eq_iff)
    then show ?thesis using led lo by simp
  qed
  from full near show ?thesis by blast
qed

theorem full_scale_duty_witness:
  "T0IF (closing 0xF0000 0xA000) \<and> freq_cnt (closing 0xF0000 0xA000) = 1
   \<and> fst (latch (closing 0xF0000 0xA000)) = 1024000
   \<and> bit (GPIO (isr (closing 0xF0000 0xA000))) 1
   \<and> pwm_dc (isr (closing 0xF0000 0xA000)) = 0
   \<and> T0IF (closing 0xF0000 0x9FFF) \<and> freq_cnt (closing 0xF0000 0x9FFF) = 1
   \<and> unat (fst (latch (closing 0xF0000 0x9FFF))) = 1023999
   \<and> bit (GPIO (isr (closing 0xF0000 0x9FFF))) 1
   \<and> pwm_dc (isr (closing 0xF0000 0x9FFF)) = 255"
  using full_scale_duty [of "closing 0xF0000 0xA000"] full_scale_duty [of "closing 0xF0000 0x9FFF"]
  by (simp add: closing_simps)

text \<open>
  C8, as the claim states it, fails: at the latched count 1024000 the published duty is
  0, the far end of the scale from 255.
\<close>

theorem full_scale_duty_counterexample:
  "T0IF (closing 0xF0000 0xA000) \<and> freq_cnt (closing 0xF0000 0xA000) = 1
   \<and> unat (fst (latch (closing 0xF0000 0xA000))) = 256 * 200 * 20
   \<and> unat (pwm_dc (isr (closing 0xF0000 0xA000))) = 0
   \<and> pwm_dc (isr (closing 0xF0000 0xA000)) \<noteq> 255"
  by (simp add: closing_simps isr_closure_pwm_dc)

section \<open>The gate timer and the pulse counter\<close>

text \<open>
  C5. Every gate closure, that is, the timer 0 part of the handler finding the
  downcounter at zero after its decrement, leaves the pulse accumulator \<open>freq\<close> at
  exactly 0 and the downcounter at exactly 200, whatever the accumulator and TMR1 held
  before. The downcounter is still 200 when the whole handler returns; the accumulator
  is then 0 too, unless an overflow was pending in the same invocation, whose quantum
  the timer 1 part adds afterwards to the new window.
\<close>

theorem gate_closure_resets:
  assumes "T0IF s" and "freq_cnt s = 1"
  shows "freq (isr_tmr0 s) = 0 \<and> freq_cnt (isr_tmr0 s) = 200
         \<and> freq_cnt (isr s) = 200
         \<and> freq (isr s) = (if TMR1IF s then 0x10000 else 0)"
proof -
  have flag: "TMR1IF (isr_tmr0 s) = TMR1IF s"
    using assms by (simp add: isr_tmr0_def latch_def convert_def Let_def)
  have "freq (isr s) = (if TMR1IF s then 0x10000 else 0)"
    using flag by (simp add: isr_def isr_tmr1_def Let_def isr_tmr0_closure_resets [OF assms])
  moreover have "freq_cnt (isr s) = 200"
    by (simp add: isr_def isr_tmr1_def Let_def isr_tmr0_closure_resets [OF assms])
  ultimately show ?thesis
    by (simp add: isr_tmr0_closure_resets [OF assms])
qed

theorem gate_closure_resets_witness:
  "T0IF (closing 0xABCD0000 0x1234) \<and> freq_cnt (closing 0xABCD0000 0x1234) = 1
   \<and> freq (closing 0xABCD0000 0x1234) = 0xABCD0000
   \<and> freq (isr_tmr0 (closing 0xABCD0000 0x1234)) = 0
   \<and> freq_cnt (isr_tmr0 (closing 0xABCD0000 0x1234)) = 200
   \<and> freq (isr (closing 0xABCD0000 0x1234)) = 0"
  using gate_closure_resets [of "closing 0xABCD0000 0x1234"]
  by (simp add: closing_def zeroed_def)

text \<open>
  C6. The downcounter \<open>freq_cnt\<close> holds 200 after \<open>freq_init\<close>; the timer 0 part of the
  handler, and the whole handler, started with a value from 1 to 200, leave a value from
  1 to 200; and in every state of a run the downcounter is from 1 to 200.
\<close>

theorem downcounter_range:
  "freq_cnt (freq_init s0) = 200
   \<and> (1 \<le> freq_cnt s \<and> freq_cnt s \<le> 200
        \<longrightarrow> 1 \<le> freq_cnt (isr_tmr0 s) \<and> freq_cnt (isr_tmr0 s) \<le> 200
            \<and> 1 \<le> freq_cnt (isr s) \<and> freq_cnt (isr s) \<le> 200)
   \<and> (window n s' \<longrightarrow> 1 \<le> freq_cnt s' \<and> freq_cnt s' \<le> 200)"
proof -
  have step: "1 \<le> freq_cnt (isr_tmr0 s) \<and> freq_cnt (isr_tmr0 s) \<le> 200"
    if range: "1 \<le> freq_cnt s \<and> freq_cnt s \<le> 200"
  proof (cases "T0IF s")
    case False
    then show ?thesis using range by (simp add: isr_tmr0_idle)
  next
    case True
    show ?thesis
    proof (cases "freq_cnt s = 1")
      case True
      with \<open>T0IF s\<close> show ?thesis by (simp add: isr_tmr0_closure_resets)
    next
      case False
      with \<open>T0IF s\<close> range show ?thesis by (simp add: isr_tmr0_tick downcounter_step)
    qed
  qed
  have whole: "freq_cnt (isr s) = freq_cnt (isr_tmr0 s)"
    by (simp add: isr_def isr_tmr1_def Let_def)
  show ?thesis
    using step by (simp add: freq_init_fields whole window_freq_cnt)
qed

theorem downcounter_range_witness:
  "freq_cnt (freq_init zeroed) = 200
   \<and> 1 \<le> freq_cnt (zeroed\<lparr>T0IF := True, freq_cnt := 57\<rparr>)
   \<and> freq_cnt (zeroed\<lparr>T0IF := True, freq_cnt := 57\<rparr>) \<le> 200
   \<and> 1 \<le> freq_cnt (isr (zeroed\<lparr>T0IF := True, freq_cnt := 57\<rparr>))
   \<and> freq_cnt (isr (zeroed\<lparr>T0IF := True, freq_cnt := 57\<rparr>)) \<le> 200
   \<and> window 3 (overflowed 3 7)
   \<and> 1 \<le> freq_cnt (overflowed 3 7) \<and> freq_cnt (overflowed 3 7) \<le> 200"
  using downcounter_range [of zeroed "zeroed\<lparr>T0IF := True, freq_cnt := 57\<rparr>" 3 "overflowed 3 7"]
    window_overflowed [of 3 7]
  by (simp add: zeroed_def)

text \<open>
  C10. In every state of a run the low 16 bits of the pulse accumulator are zero, so
  the value that the latch forms with bitwise OR, \<open>freq |= TMR1\<close>, is the sum of the
  accumulator and the 16-bit counter, as a 32-bit word and as a number.
\<close>

theorem latch_or_is_add:
  assumes "window n s"
  shows "freq s AND 0xFFFF = 0
         \<and> fst (latch s) = freq s + ucast (TMR1 s)
         \<and> unat (fst (latch s)) = unat (freq s) + unat (TMR1 s)"
proof -
  have low: "take_bit 16 (freq s) = 0"
    by (rule window_low16 [OF assms])
  have "take_bit 16 (freq s) = freq s AND mask 16"
    by (rule take_bit_eq_mask)
  moreover have "(mask 16 :: uint32_t) = 0xFFFF"
    by (simp add: mask_eq_exp_minus_1)
  ultimately have "freq s AND 0xFFFF = 0"
    using low by simp
  moreover have "fst (latch s) = freq s + ucast (TMR1 s)"
    by (simp only: latch_count or_is_add [OF low])
  moreover have "unat (fst (latch s)) = unat (freq s) + unat (TMR1 s)"
    by (simp only: latch_count unat_or_is_add [OF low])
  ultimately show ?thesis
    by (intro conjI)
qed

theorem latch_or_is_add_witness:
  "window 3 (gate_end 3 0x1234)
   \<and> freq (gate_end 3 0x1234) AND 0xFFFF = 0
   \<and> fst (latch (gate_end 3 0x1234)) = freq (gate_end 3 0x1234) + 0x1234
   \<and> fst (latch (gate_end 3 0x1234)) = 0x31234"
  using latch_or_is_add [OF window_gate_end [of 3 "0x1234"]] window_gate_end [of 3 "0x1234"]
  by (simp add: gate_end_simps)

text \<open>
  C4. After \<open>N\<close> firings of the overflow part of the handler since the last gate
  closure, a gate closure with TMR1 standing at \<open>r\<close> passes to the classifier the count
  \<open>N * 65536 + r\<close>: as the 32-bit value that the handler computes, and as a number for
  every \<open>N < 65536\<close>, the counts that the 32-bit accumulator holds. An overflow whose
  flag is still pending when the closing tick is serviced has not fired: the timer 1 part
  of the handler adds its quantum after the latch, to the new window.
\<close>

theorem overflow_accumulation:
  assumes "window N s"
  shows "fst (latch s) = word_of_nat (N * 65536 + unat (TMR1 s))
         \<and> (N < 65536 \<longrightarrow> unat (fst (latch s)) = N * 65536 + unat (TMR1 s))
         \<and> (T0IF s \<and> freq_cnt s = 1 \<longrightarrow>
              isr_tmr0 s =
                convert (fst (latch s)) (snd (latch (s\<lparr>T0IF := False, freq_cnt := 0\<rparr>)))
              \<and> freq (isr s) = (if TMR1IF s then 0x10000 else 0))"
proof -
  have low: "take_bit 16 (freq s) = 0"
    by (rule window_low16 [OF assms])
  have "fst (latch s) = freq s + ucast (TMR1 s)"
    by (simp add: latch_count or_is_add [OF low])
  also have "\<dots> = word_of_nat (N * 65536 + unat (TMR1 s))"
    by (simp add: window_freq [OF assms])
  finally have count: "fst (latch s) = word_of_nat (N * 65536 + unat (TMR1 s))" .
  then have wrapped: "unat (fst (latch s)) = (N * 65536 + unat (TMR1 s)) mod 2 ^ 32"
    by (simp only: unat_of_nat) simp
  have r: "unat (TMR1 s) < 65536"
    using unsigned_less [of "TMR1 s", where ?'a = nat] by simp
  have exact: "unat (fst (latch s)) = N * 65536 + unat (TMR1 s)" if "N < 65536"
  proof -
    have "N * 65536 + unat (TMR1 s) < 2 ^ 32"
      using that r by simp
    then show ?thesis
      by (simp only: wrapped mod_less)
  qed
  have closure: "isr_tmr0 s =
        convert (fst (latch s)) (snd (latch (s\<lparr>T0IF := False, freq_cnt := 0\<rparr>)))
      \<and> freq (isr s) = (if TMR1IF s then 0x10000 else 0)"
    if "T0IF s \<and> freq_cnt s = 1"
    using that isr_tmr0_closure [of s] isr_closure_freq [of s] by blast
  from count exact closure show ?thesis by blast
qed

theorem overflow_accumulation_witness:
  "window 3 (gate_end 3 0x0105) \<and> (3 :: nat) < 65536
   \<and> T0IF (gate_end 3 0x0105) \<and> freq_cnt (gate_end 3 0x0105) = 1
   \<and> \<not> TMR1IF (gate_end 3 0x0105)
   \<and> unat (fst (latch (gate_end 3 0x0105))) = 3 * 65536 + 261
   \<and> isr_tmr0 (gate_end 3 0x0105) =
       convert 0x30105 (snd (latch ((gate_end 3 0x0105)\<lparr>T0IF := False, freq_cnt := 0\<rparr>)))
   \<and> pwm_dc (isr (gate_end 3 0x0105)) = 49
   \<and> freq (isr (gate_end 3 0x0105)) = 0
   \<and> window 3 (gate_end_pending 3 0x0105)
   \<and> T0IF (gate_end_pending 3 0x0105) \<and> freq_cnt (gate_end_pending 3 0x0105) = 1
   \<and> TMR1IF (gate_end_pending 3 0x0105)
   \<and> unat (fst (latch (gate_end_pending 3 0x0105))) = 3 * 65536 + 261
   \<and> pwm_dc (isr (gate_end_pending 3 0x0105)) = 49
   \<and> freq (isr (gate_end_pending 3 0x0105)) = 0x10000"
  using overflow_accumulation [OF window_gate_end [of 3 "0x0105"]]
    overflow_accumulation [OF window_gate_end_pending [of 3 "0x0105"]]
    window_gate_end [of 3 "0x0105"] window_gate_end_pending [of 3 "0x0105"]
  by (simp add: gate_end_simps gate_end_pending_simps latch_count isr_closure_pwm_dc)
    (simp add: gate_end_def freq_init_def zeroed_def Let_def)

section \<open>The output loop\<close>

text \<open>
  C7. In every iteration of the output loop the PWM pin (bit 0 of GPIO) is driven low
  when the free-running counter TMR0 is strictly greater than the duty-cycle register,
  and driven high otherwise, whatever the two values are.
\<close>

theorem pwm_out_pin:
  "bit (GPIO (pwm_out s)) 0 = (\<not> TMR0 s > pwm_dc s)"
  by (simp add: pwm_out_def IO_CLR_def IO_SET_def PWM_PIN_def bit_simps)

theorem pwm_out_pin_witness:
  "bit (GPIO (pwm_out (zeroed\<lparr>TMR0 := 100, pwm_dc := 99\<rparr>))) 0 = False
   \<and> bit (GPIO (pwm_out (zeroed\<lparr>TMR0 := 100, pwm_dc := 100\<rparr>))) 0 = True"
  using pwm_out_pin [of "zeroed\<lparr>TMR0 := 100, pwm_dc := 99\<rparr>"]
    pwm_out_pin [of "zeroed\<lparr>TMR0 := 100, pwm_dc := 100\<rparr>"]
  by simp

end
